theory Spec2Isabelle
  imports Main
begin

section \<open>Values\<close>

text \<open>
  A function value has a reference identity. Functions supplied by the caller carry
  their identity and their \<open>name\<close> property. The arrow function that
  \<open>defaultHandle(event)\<close> returns is a closure over \<open>event\<close> (and over
  \<open>dispatch\<close>, which is fixed for a middleware instance); every evaluation of the arrow
  expression makes a new function object, so it carries the number of its allocation.
\<close>

datatype fn = UserFn nat string | DefaultHandler nat string

text \<open>
  The \<open>name\<close> property. The arrow function of \<open>defaultHandle\<close> is returned
  without being bound to a variable or a property, so its name is the empty string.
\<close>

fun fn_name :: "fn \<Rightarrow> string" where
  "fn_name (UserFn i n) = n"
| "fn_name (DefaultHandler i e) = []"

text \<open>
  The values an action carries. The middleware passes them on and only tests
  \<open>typeof\<close>; it computes with none of them, so numbers are the integral ones and an
  object is the list of its properties.
\<close>

datatype jsval =
    Undefined
  | Null
  | Bool bool
  | Num int
  | Str string
  | Fun fn
  | Obj "(string \<times> jsval) list"

text \<open>\<open>typeof v === 'function'\<close>\<close>

fun is_function :: "jsval \<Rightarrow> bool" where
  "is_function (Fun f) = True"
| "is_function v = False"

text \<open>\<open>new Error(message)\<close>, thrown.\<close>

datatype error = Error string

section \<open>Actions\<close>

text \<open>
  \<open>interface SocketAction extends Action<string> { event: string; handle?: Function; data?: any }\<close>.
  \<open>type\<close> and \<open>event\<close> are strings, as declared. An optional property that the
  object does not have is \<open>None\<close>. The declared type of \<open>handle\<close> is
  \<open>Function\<close>, but the middleware tests it with \<open>typeof\<close> at run time, so the
  property holds any value here.
\<close>

record SocketAction =
  type :: string
  event :: string
  handle :: "jsval option"
  data :: "jsval option"

text \<open>Reading a property: an absent one reads as \<open>undefined\<close>.\<close>

fun read_prop :: "jsval option \<Rightarrow> jsval" where
  "read_prop None = Undefined"
| "read_prop (Some v) = v"

text \<open>
  The parameter of the middleware, \<open>action: Function | SocketAction\<close>: a function (a
  thunk for another middleware) or an action object.
\<close>

datatype dispatched = Thunk fn | Action SocketAction

definition ACTIONS_SUBSCRIBE :: string where
  "ACTIONS_SUBSCRIBE = ''SOCKET_IO_SUBSCRIBE''"

definition ACTIONS_UNSUBSCRIBE :: string where
  "ACTIONS_UNSUBSCRIBE = ''SOCKET_IO_UNSUBSCRIBE''"

definition ACTIONS_EMIT :: string where
  "ACTIONS_EMIT = ''SOCKET_IO_EMIT''"

definition ACTIONS_EMIT_EVENT :: string where
  "ACTIONS_EMIT_EVENT = ''SOCKET_IO_EMIT_EVENT''"

definition ACTIONS_EVENT_RECEIVED :: string where
  "ACTIONS_EVENT_RECEIVED = ''SOCKET_IO_EVENT_RECEIVED''"

subsection \<open>actionCreator\<close>

text \<open>
  \<open>emit\<close>, \<open>subscribe\<close> and \<open>unsubscribe\<close> return an object literal. The
  handle argument is whatever the caller passes at run time (\<open>undefined\<close> when
  \<open>subscribe\<close> is called with the event alone).
\<close>

definition emit :: "string \<Rightarrow> jsval \<Rightarrow> SocketAction" where
  "emit ev d = \<lparr>type = ACTIONS_EMIT, event = ev, handle = None, data = Some d\<rparr>"

definition subscribe :: "string \<Rightarrow> jsval \<Rightarrow> SocketAction" where
  "subscribe ev h = \<lparr>type = ACTIONS_SUBSCRIBE, event = ev, handle = Some h, data = None\<rparr>"

definition unsubscribe :: "string \<Rightarrow> jsval \<Rightarrow> SocketAction" where
  "unsubscribe ev h = \<lparr>type = ACTIONS_UNSUBSCRIBE, event = ev, handle = Some h, data = None\<rparr>"

section \<open>The collaborators: store, next stage and socket\<close>

text \<open>
  The middleware makes five calls that it does not define: \<open>dispatch\<close> of the store,
  \<open>next\<close> of the pipeline, and \<open>socket.on\<close>, \<open>socket.removeListener\<close> and
  \<open>socket.emit\<close> of the socket. Each call is recorded, in order, in a trace. What a
  collaborator does inside a call (the store runs its pipeline on a dispatched record) is
  its own and is not recorded.
\<close>

datatype effect =
    Dispatch jsval
  | Next dispatched
  | SocketOn string fn
  | SocketRemoveListener string fn
  | SocketEmit string jsval

text \<open>
  The state: the calls made so far, and the number of closures allocated so far by
  \<open>defaultHandle\<close>.
\<close>

record world =
  trace :: "effect list"
  next_ref :: nat

text \<open>What the calls return is a parameter.\<close>

record env =
  dispatch_result :: "jsval \<Rightarrow> jsval"
  next_result :: "dispatched \<Rightarrow> jsval"
  emit_result :: "string \<Rightarrow> jsval \<Rightarrow> jsval"

definition dispatch :: "env \<Rightarrow> jsval \<Rightarrow> world \<Rightarrow> jsval \<times> world" where
  "dispatch en v w = (dispatch_result en v, w\<lparr>trace := trace w @ [Dispatch v]\<rparr>)"

definition call_next :: "env \<Rightarrow> dispatched \<Rightarrow> world \<Rightarrow> jsval \<times> world" where
  "call_next en a w = (next_result en a, w\<lparr>trace := trace w @ [Next a]\<rparr>)"

definition socket_on :: "string \<Rightarrow> fn \<Rightarrow> world \<Rightarrow> world" where
  "socket_on ev f w = w\<lparr>trace := trace w @ [SocketOn ev f]\<rparr>"

definition socket_removeListener :: "string \<Rightarrow> fn \<Rightarrow> world \<Rightarrow> world" where
  "socket_removeListener ev f w = w\<lparr>trace := trace w @ [SocketRemoveListener ev f]\<rparr>"

definition socket_emit :: "env \<Rightarrow> string \<Rightarrow> jsval \<Rightarrow> world \<Rightarrow> jsval \<times> world" where
  "socket_emit en ev d w = (emit_result en ev d, w\<lparr>trace := trace w @ [SocketEmit ev d]\<rparr>)"

section \<open>socketMiddleware\<close>

text \<open>
  \<open>defaultHandle(event)\<close> evaluates the arrow expression: a new closure over
  \<open>event\<close>.
\<close>

definition defaultHandle :: "string \<Rightarrow> world \<Rightarrow> fn \<times> world" where
  "defaultHandle ev w = (DefaultHandler (next_ref w) ev, w\<lparr>next_ref := Suc (next_ref w)\<rparr>)"

text \<open>
  Calling a function value with one argument. The body of the closure of
  \<open>defaultHandle\<close> is \<open>dispatch({ type: `RECEIVE: ${event}`, data })\<close>. The code
  of a caller's function is not part of the program: \<open>None\<close>.
\<close>

fun call_fn :: "env \<Rightarrow> fn \<Rightarrow> jsval \<Rightarrow> world \<Rightarrow> (jsval \<times> world) option" where
  "call_fn en (DefaultHandler i ev) d w =
     Some (dispatch en (Obj [(''type'', Str (''RECEIVE: '' @ ev)), (''data'', d)]) w)"
| "call_fn en (UserFn i n) d w = None"

text \<open>
  The inner function \<open>(action) => ...\<close>. It returns a value (\<open>Inr\<close>) or throws
  (\<open>Inl\<close>). The \<open>break\<close> of the UNSUBSCRIBE case leaves the switch and the function
  ends without a return statement: \<open>undefined\<close>.
\<close>

definition socketMiddleware :: "env \<Rightarrow> dispatched \<Rightarrow> world \<Rightarrow> (error + jsval) \<times> world" where
  "socketMiddleware en action w =
    (case action of
       Thunk f \<Rightarrow> (let (r, w1) = call_next en action w in (Inr r, w1))
     | Action a \<Rightarrow>
        (let ty = type a; ev = event a; h = read_prop (handle a); d = read_prop (data a) in
         if ty = ACTIONS_SUBSCRIBE then
           (let (u, w1) = dispatch en
                  (Obj [(''type'', Str (''SUBSCRIBE: '' @ ev)),
                        (''event'', Str ev),
                        (''handle'', case h of Fun f \<Rightarrow> Str (''function: '' @ fn_name f) | _ \<Rightarrow> h)]) w;
                (eventHandler, w2) = (case h of Fun f \<Rightarrow> (f, w1) | _ \<Rightarrow> defaultHandle ev w1);
                w3 = socket_on ev eventHandler w2
            in (Inr (Fun eventHandler), w3))
         else if ty = ACTIONS_UNSUBSCRIBE then
           (let (u, w1) = dispatch en
                  (Obj [(''type'', Str (''UNSUBSCRIBE '' @ ev)), (''event'', Str ev)]) w
            in case h of
                 Fun f \<Rightarrow> (Inr Undefined, socket_removeListener ev f w1)
               | _ \<Rightarrow> (Inl (Error (''Unable to unsubscribe to '' @ ev @
                                    '', without a function reference.'')), w1))
         else if ty = ACTIONS_EMIT then
           (let (u, w1) = dispatch en
                  (Obj [(''type'', Str (''EMIT: '' @ ev)),
                        (''action'', Str ''SOCKET.IO EMIT''),
                        (''data'', d)]) w;
                (r, w2) = socket_emit en ev d w1
            in (Inr r, w2))
         else (let (r, w1) = call_next en action w in (Inr r, w1))))"

section \<open>What one call of the middleware does\<close>

text \<open>The calls made by one invocation: what it appends to the trace.\<close>

definition effects :: "env \<Rightarrow> dispatched \<Rightarrow> world \<Rightarrow> effect list" where
  "effects en action w = drop (length (trace w)) (trace (snd (socketMiddleware en action w)))"

fun is_dispatch :: "effect \<Rightarrow> bool" where
  "is_dispatch (Dispatch v) = True"
| "is_dispatch e = False"

fun is_next :: "effect \<Rightarrow> bool" where
  "is_next (Next a) = True"
| "is_next e = False"

fun is_socket_call :: "effect \<Rightarrow> bool" where
  "is_socket_call (SocketOn ev f) = True"
| "is_socket_call (SocketRemoveListener ev f) = True"
| "is_socket_call (SocketEmit ev d) = True"
| "is_socket_call e = False"

subsection \<open>The socket\<close>

text \<open>
  The socket is made by \<open>io()\<close> of socket.io-client; the middleware only calls it. A
  socket is taken as a parameter: a state of any type and what the three calls do to it.
  \<open>run_channel\<close> applies the socket calls of a trace, in order; the calls to
  \<open>dispatch\<close> and \<open>next\<close> are not calls on the socket.
\<close>

record 'c channel =
  ch_on :: "string \<Rightarrow> fn \<Rightarrow> 'c \<Rightarrow> 'c"
  ch_removeListener :: "string \<Rightarrow> fn \<Rightarrow> 'c \<Rightarrow> 'c"
  ch_emit :: "string \<Rightarrow> jsval \<Rightarrow> 'c \<Rightarrow> 'c"

fun channel_step :: "'c channel \<Rightarrow> effect \<Rightarrow> 'c \<Rightarrow> 'c" where
  "channel_step ch (SocketOn ev f) c = ch_on ch ev f c"
| "channel_step ch (SocketRemoveListener ev f) c = ch_removeListener ch ev f c"
| "channel_step ch (SocketEmit ev d) c = ch_emit ch ev d c"
| "channel_step ch (Dispatch v) c = c"
| "channel_step ch (Next a) c = c"

definition run_channel :: "'c channel \<Rightarrow> effect list \<Rightarrow> 'c \<Rightarrow> 'c" where
  "run_channel ch es c = fold (channel_step ch) es c"

text \<open>
  Modelled from the spec: the socket's listener registry, which is code of
  socket.io-client and not of this repository. The spec (sections 3 and 6) describes it as
  a relation between events and callbacks, the "listener set": \<open>addListener\<close> registers
  the callback for the event, \<open>removeListener\<close> removes a previously registered callback
  by reference equality, and \<open>send\<close> does not change the registrations.
\<close>

definition spec_channel :: "((string \<times> fn) set) channel" where
  "spec_channel =
     \<lparr>ch_on = (\<lambda>ev f L. insert (ev, f) L),
      ch_removeListener = (\<lambda>ev f L. L - {(ev, f)}),
      ch_emit = (\<lambda>ev d L. L)\<rparr>"

text \<open>
  Modelled from the spec: the callbacks that a delivery of the event by the channel
  reaches are those registered for it.
\<close>

definition listeners_for :: "(string \<times> fn) set \<Rightarrow> string \<Rightarrow> fn set" where
  "listeners_for L ev = snd ` Set.filter (\<lambda>p. fst p = ev) L"

subsection \<open>Example inputs\<close>

text \<open>
  A store whose \<open>dispatch\<close> returns the action it was given, a next stage that returns
  \<open>null\<close>, and a socket whose \<open>emit\<close> returns \<open>true\<close>; no call made yet.
\<close>

definition example_env :: env where
  "example_env =
     \<lparr>dispatch_result = (\<lambda>v. v), next_result = (\<lambda>a. Null), emit_result = (\<lambda>ev d. Bool True)\<rparr>"

definition empty_world :: world where
  "empty_world = \<lparr>trace = [], next_ref = 0\<rparr>"

section \<open>The branches of the middleware\<close>

lemma ACTIONS_distinct:
  "ACTIONS_SUBSCRIBE \<noteq> ACTIONS_UNSUBSCRIBE" "ACTIONS_SUBSCRIBE \<noteq> ACTIONS_EMIT"
  "ACTIONS_UNSUBSCRIBE \<noteq> ACTIONS_SUBSCRIBE" "ACTIONS_UNSUBSCRIBE \<noteq> ACTIONS_EMIT"
  "ACTIONS_EMIT \<noteq> ACTIONS_SUBSCRIBE" "ACTIONS_EMIT \<noteq> ACTIONS_UNSUBSCRIBE"
  by (simp_all add: ACTIONS_SUBSCRIBE_def ACTIONS_UNSUBSCRIBE_def ACTIONS_EMIT_def)

lemma middleware_thunk:
  "socketMiddleware en (Thunk f) w =
     (Inr (next_result en (Thunk f)), w\<lparr>trace := trace w @ [Next (Thunk f)]\<rparr>)"
  by (simp add: socketMiddleware_def Let_def call_next_def)

lemma middleware_other:
  assumes "type a \<noteq> ACTIONS_SUBSCRIBE" "type a \<noteq> ACTIONS_UNSUBSCRIBE" "type a \<noteq> ACTIONS_EMIT"
  shows "socketMiddleware en (Action a) w =
     (Inr (next_result en (Action a)), w\<lparr>trace := trace w @ [Next (Action a)]\<rparr>)"
  using assms by (simp add: socketMiddleware_def Let_def call_next_def)

lemma middleware_emit:
  "socketMiddleware en (Action \<lparr>type = ACTIONS_EMIT, event = ev, handle = h, data = d\<rparr>) w =
     (Inr (emit_result en ev (read_prop d)),
      w\<lparr>trace := trace w @
        [Dispatch (Obj [(''type'', Str (''EMIT: '' @ ev)),
                        (''action'', Str ''SOCKET.IO EMIT''),
                        (''data'', read_prop d)]),
         SocketEmit ev (read_prop d)]\<rparr>)"
  by (simp add: socketMiddleware_def Let_def ACTIONS_distinct dispatch_def socket_emit_def)

lemma middleware_subscribe_function:
  "socketMiddleware en
      (Action \<lparr>type = ACTIONS_SUBSCRIBE, event = ev, handle = Some (Fun f), data = d\<rparr>) w =
     (Inr (Fun f),
      w\<lparr>trace := trace w @
        [Dispatch (Obj [(''type'', Str (''SUBSCRIBE: '' @ ev)),
                        (''event'', Str ev),
                        (''handle'', Str (''function: '' @ fn_name f))]),
         SocketOn ev f]\<rparr>)"
  by (simp add: socketMiddleware_def Let_def dispatch_def socket_on_def)

lemma middleware_subscribe_default:
  assumes "\<not> is_function (read_prop h)"
  shows "socketMiddleware en
      (Action \<lparr>type = ACTIONS_SUBSCRIBE, event = ev, handle = h, data = d\<rparr>) w =
     (Inr (Fun (DefaultHandler (next_ref w) ev)),
      w\<lparr>trace := trace w @
        [Dispatch (Obj [(''type'', Str (''SUBSCRIBE: '' @ ev)),
                        (''event'', Str ev),
                        (''handle'', read_prop h)]),
         SocketOn ev (DefaultHandler (next_ref w) ev)],
        next_ref := Suc (next_ref w)\<rparr>)"
  using assms
  by (cases "read_prop h")
     (simp_all add: socketMiddleware_def Let_def dispatch_def socket_on_def defaultHandle_def)

lemma middleware_unsubscribe_function:
  "socketMiddleware en
      (Action \<lparr>type = ACTIONS_UNSUBSCRIBE, event = ev, handle = Some (Fun f), data = d\<rparr>) w =
     (Inr Undefined,
      w\<lparr>trace := trace w @
        [Dispatch (Obj [(''type'', Str (''UNSUBSCRIBE '' @ ev)), (''event'', Str ev)]),
         SocketRemoveListener ev f]\<rparr>)"
  by (simp add: socketMiddleware_def Let_def ACTIONS_distinct dispatch_def socket_removeListener_def)

lemma middleware_unsubscribe_error:
  assumes "\<not> is_function (read_prop h)"
  shows "socketMiddleware en
      (Action \<lparr>type = ACTIONS_UNSUBSCRIBE, event = ev, handle = h, data = d\<rparr>) w =
     (Inl (Error (''Unable to unsubscribe to '' @ ev @ '', without a function reference.'')),
      w\<lparr>trace := trace w @
        [Dispatch (Obj [(''type'', Str (''UNSUBSCRIBE '' @ ev)), (''event'', Str ev)])]\<rparr>)"
  using assms
  by (cases "read_prop h")
     (simp_all add: socketMiddleware_def Let_def ACTIONS_distinct dispatch_def)

text \<open>The effects of a call, read off the state it returns.\<close>

lemma effects_eq:
  assumes "trace (snd (socketMiddleware en action w)) = trace w @ es"
  shows "effects en action w = es"
  using assms by (simp add: effects_def)

lemma effects_thunk: "effects en (Thunk f) w = [Next (Thunk f)]"
  by (rule effects_eq) (simp add: middleware_thunk)

lemma effects_other:
  assumes "type a \<noteq> ACTIONS_SUBSCRIBE" "type a \<noteq> ACTIONS_UNSUBSCRIBE" "type a \<noteq> ACTIONS_EMIT"
  shows "effects en (Action a) w = [Next (Action a)]"
  by (rule effects_eq) (simp add: middleware_other [OF assms])

lemma effects_emit:
  "effects en (Action \<lparr>type = ACTIONS_EMIT, event = ev, handle = h, data = d\<rparr>) w =
     [Dispatch (Obj [(''type'', Str (''EMIT: '' @ ev)),
                     (''action'', Str ''SOCKET.IO EMIT''),
                     (''data'', read_prop d)]),
      SocketEmit ev (read_prop d)]"
  by (rule effects_eq) (simp add: middleware_emit)

lemma effects_subscribe_function:
  "effects en (Action \<lparr>type = ACTIONS_SUBSCRIBE, event = ev, handle = Some (Fun f), data = d\<rparr>) w =
     [Dispatch (Obj [(''type'', Str (''SUBSCRIBE: '' @ ev)),
                     (''event'', Str ev),
                     (''handle'', Str (''function: '' @ fn_name f))]),
      SocketOn ev f]"
  by (rule effects_eq) (simp add: middleware_subscribe_function)

lemma effects_subscribe_default:
  assumes "\<not> is_function (read_prop h)"
  shows "effects en (Action \<lparr>type = ACTIONS_SUBSCRIBE, event = ev, handle = h, data = d\<rparr>) w =
     [Dispatch (Obj [(''type'', Str (''SUBSCRIBE: '' @ ev)),
                     (''event'', Str ev),
                     (''handle'', read_prop h)]),
      SocketOn ev (DefaultHandler (next_ref w) ev)]"
  by (rule effects_eq) (simp add: middleware_subscribe_default [OF assms])

lemma effects_unsubscribe_function:
  "effects en (Action \<lparr>type = ACTIONS_UNSUBSCRIBE, event = ev, handle = Some (Fun f), data = d\<rparr>) w =
     [Dispatch (Obj [(''type'', Str (''UNSUBSCRIBE '' @ ev)), (''event'', Str ev)]),
      SocketRemoveListener ev f]"
  by (rule effects_eq) (simp add: middleware_unsubscribe_function)

lemma effects_unsubscribe_error:
  assumes "\<not> is_function (read_prop h)"
  shows "effects en (Action \<lparr>type = ACTIONS_UNSUBSCRIBE, event = ev, handle = h, data = d\<rparr>) w =
     [Dispatch (Obj [(''type'', Str (''UNSUBSCRIBE '' @ ev)), (''event'', Str ev)])]"
  by (rule effects_eq) (simp add: middleware_unsubscribe_error [OF assms])

lemma is_function_read_prop:
  "is_function (read_prop h) \<longleftrightarrow> (\<exists>f. h = Some (Fun f))"
proof (cases h)
  case None
  then show ?thesis by simp
next
  case (Some v)
  then show ?thesis by (cases v) simp_all
qed

section \<open>The claims\<close>

text \<open>
  C1. For every event and payload, processing an EMIT action makes exactly two calls, in
  this order: one \<open>dispatch\<close> of the provenance record
  \<open>{type: "EMIT: <event>", action: "SOCKET.IO EMIT", data}\<close>, then one
  \<open>socket.emit(event, data)\<close>; and it returns what \<open>socket.emit\<close> returned.
\<close>

theorem emit_dispatches_then_sends:
  "effects en (Action \<lparr>type = ACTIONS_EMIT, event = ev, handle = h, data = d\<rparr>) w =
     [Dispatch (Obj [(''type'', Str (''EMIT: '' @ ev)),
                     (''action'', Str ''SOCKET.IO EMIT''),
                     (''data'', read_prop d)]),
      SocketEmit ev (read_prop d)]
   \<and> fst (socketMiddleware en (Action \<lparr>type = ACTIONS_EMIT, event = ev, handle = h, data = d\<rparr>) w) = Inr (emit_result en ev (read_prop d))"
  by (simp add: effects_emit middleware_emit)

text \<open>
  C2. For every event and handler, processing a SUBSCRIBE action makes exactly one call on
  the socket, \<open>socket.on(event, eventHandler)\<close>, and returns \<open>eventHandler\<close>, a
  function: the supplied handler itself when it is a function, and otherwise the closure
  that \<open>defaultHandle(event)\<close> has just made (the one numbered \<open>next_ref w\<close>).
\<close>

theorem subscribe_registers_one_listener:
  "(filter is_socket_call (effects en (Action \<lparr>type = ACTIONS_SUBSCRIBE, event = ev, handle = Some (Fun f), data = d\<rparr>) w) = [SocketOn ev f]
    \<and> fst (socketMiddleware en (Action \<lparr>type = ACTIONS_SUBSCRIBE, event = ev, handle = Some (Fun f), data = d\<rparr>) w) = Inr (Fun f))
   \<and> (\<not> is_function (read_prop h) \<longrightarrow>
        filter is_socket_call (effects en (Action \<lparr>type = ACTIONS_SUBSCRIBE, event = ev, handle = h, data = d\<rparr>) w) =
          [SocketOn ev (DefaultHandler (next_ref w) ev)]
        \<and> fst (socketMiddleware en (Action \<lparr>type = ACTIONS_SUBSCRIBE, event = ev, handle = h, data = d\<rparr>) w) =
          Inr (Fun (DefaultHandler (next_ref w) ev)))"
  by (simp add: effects_subscribe_function middleware_subscribe_function
      effects_subscribe_default middleware_subscribe_default)

theorem subscribe_registers_one_listener_witness:
  "\<not> is_function (read_prop None)
   \<and> filter is_socket_call
       (effects example_env
          (Action \<lparr>type = ACTIONS_SUBSCRIBE, event = ''chat:message'', handle = None, data = None\<rparr>)
          empty_world) = [SocketOn ''chat:message'' (DefaultHandler 0 ''chat:message'')]
   \<and> fst (socketMiddleware example_env
          (Action \<lparr>type = ACTIONS_SUBSCRIBE, event = ''chat:message'', handle = None, data = None\<rparr>)
          empty_world) = Inr (Fun (DefaultHandler 0 ''chat:message''))
   \<and> fst (socketMiddleware example_env
          (Action (subscribe ''chat:message'' (Fun (UserFn 7 ''onMessage'')))) empty_world) =
       Inr (Fun (UserFn 7 ''onMessage''))"
  using subscribe_registers_one_listener [where h = None and ev = "''chat:message''"
      and en = example_env and w = empty_world and d = None and f = "UserFn 7 ''onMessage''"]
  by (simp add: empty_world_def subscribe_def)

text \<open>
  C3. For every event and every handler value that is not a function, processing an
  UNSUBSCRIBE action throws, and makes no call on the socket: whatever the socket is, its
  state after the call is its state before.
\<close>

theorem unsubscribe_not_callable_raises:
  assumes "\<not> is_function (read_prop h)"
  shows "fst (socketMiddleware en (Action \<lparr>type = ACTIONS_UNSUBSCRIBE, event = ev, handle = h, data = d\<rparr>) w) =
           Inl (Error (''Unable to unsubscribe to '' @ ev @ '', without a function reference.''))
         \<and> filter is_socket_call (effects en (Action \<lparr>type = ACTIONS_UNSUBSCRIBE, event = ev, handle = h, data = d\<rparr>) w) = []
         \<and> run_channel ch (effects en (Action \<lparr>type = ACTIONS_UNSUBSCRIBE, event = ev, handle = h, data = d\<rparr>) w) c = c"
  by (simp add: effects_unsubscribe_error [OF assms] middleware_unsubscribe_error [OF assms]
      run_channel_def)

theorem unsubscribe_not_callable_raises_witness:
  "\<not> is_function (read_prop (Some (Num 42)))
   \<and> fst (socketMiddleware example_env (Action (unsubscribe ''chat:message'' (Num 42))) empty_world) =
       Inl (Error ''Unable to unsubscribe to chat:message, without a function reference.'')
   \<and> filter is_socket_call
       (effects example_env (Action (unsubscribe ''chat:message'' (Num 42))) empty_world) = []
   \<and> run_channel
       \<lparr>ch_on = (\<lambda>ev f c. (ev, f) # c),
        ch_removeListener = (\<lambda>ev f c. remove1 (ev, f) c),
        ch_emit = (\<lambda>ev d c. c)\<rparr>
       (effects example_env (Action (unsubscribe ''chat:message'' (Num 42))) empty_world)
       [(''chat:message'', UserFn 7 ''onMessage'')] = [(''chat:message'', UserFn 7 ''onMessage'')]"
  using unsubscribe_not_callable_raises [where h = "Some (Num 42)" and ev = "''chat:message''"
      and en = example_env and w = empty_world and d = None
      and ch = "\<lparr>ch_on = (\<lambda>ev f c. (ev, f) # c),
                ch_removeListener = (\<lambda>ev f c. remove1 (ev, f) c),
                ch_emit = (\<lambda>ev d c. c)\<rparr>"
      and c = "[(''chat:message'', UserFn 7 ''onMessage'')]"]
  by (simp add: unsubscribe_def)

text \<open>
  C4. Round trip. After a SUBSCRIBE action with no handler (the property absent or
  \<open>undefined\<close>), the function that was registered with \<open>socket.on\<close> and returned
  is the default handler, and calling it later with any data, in any state, makes exactly
  one call: \<open>dispatch({type: "RECEIVE: <event>", data})\<close>.
\<close>

theorem default_handler_round_trip:
  assumes "h = None \<or> h = Some Undefined"
  shows "fst (socketMiddleware en (Action \<lparr>type = ACTIONS_SUBSCRIBE, event = ev, handle = h, data = d\<rparr>) w) = Inr (Fun (DefaultHandler (next_ref w) ev))
         \<and> filter is_socket_call (effects en (Action \<lparr>type = ACTIONS_SUBSCRIBE, event = ev, handle = h, data = d\<rparr>) w) = [SocketOn ev (DefaultHandler (next_ref w) ev)]
         \<and> call_fn en (DefaultHandler (next_ref w) ev) x w' =
             Some (dispatch_result en (Obj [(''type'', Str (''RECEIVE: '' @ ev)), (''data'', x)]),
                   w'\<lparr>trace := trace w' @
                     [Dispatch (Obj [(''type'', Str (''RECEIVE: '' @ ev)), (''data'', x)])]\<rparr>)"
proof -
  from assms have nf: "\<not> is_function (read_prop h)" by auto
  show ?thesis
    by (simp add: middleware_subscribe_default [OF nf] effects_subscribe_default [OF nf]
        dispatch_def)
qed

theorem default_handler_round_trip_witness:
  "fst (socketMiddleware example_env (Action (subscribe ''chat:message'' Undefined)) empty_world) =
     Inr (Fun (DefaultHandler 0 ''chat:message''))
   \<and> filter is_socket_call
       (effects example_env (Action (subscribe ''chat:message'' Undefined)) empty_world) =
       [SocketOn ''chat:message'' (DefaultHandler 0 ''chat:message'')]
   \<and> call_fn example_env (DefaultHandler 0 ''chat:message'') (Obj [(''text'', Str ''hi'')])
       (snd (socketMiddleware example_env (Action (subscribe ''chat:message'' Undefined)) empty_world)) =
       Some (Obj [(''type'', Str ''RECEIVE: chat:message''), (''data'', Obj [(''text'', Str ''hi'')])],
             \<lparr>trace =
                [Dispatch (Obj [(''type'', Str ''SUBSCRIBE: chat:message''),
                                (''event'', Str ''chat:message''),
                                (''handle'', Undefined)]),
                 SocketOn ''chat:message'' (DefaultHandler 0 ''chat:message''),
                 Dispatch (Obj [(''type'', Str ''RECEIVE: chat:message''),
                                (''data'', Obj [(''text'', Str ''hi'')])])],
              next_ref = 1\<rparr>)"
  using default_handler_round_trip [where h = "Some Undefined" and ev = "''chat:message''"
      and en = example_env and w = empty_world and d = None
      and x = "Obj [(''text'', Str ''hi'')]"
      and w' = "snd (socketMiddleware example_env (Action (subscribe ''chat:message'' Undefined)) empty_world)"]
  by (simp add: subscribe_def middleware_subscribe_default empty_world_def example_env_def)

text \<open>
  C5. For every dispatched value that is a function, or an action whose type is none of
  the three kinds, the middleware makes exactly one call, \<open>next(action)\<close> with the
  value as it came, and returns what \<open>next\<close> returned: no call on the socket and no
  \<open>dispatch\<close>.
\<close>

theorem unrecognised_is_forwarded_to_next:
  assumes "case action of
             Thunk f \<Rightarrow> True
           | Action a \<Rightarrow> type a \<noteq> ACTIONS_SUBSCRIBE \<and> type a \<noteq> ACTIONS_UNSUBSCRIBE
                          \<and> type a \<noteq> ACTIONS_EMIT"
  shows "fst (socketMiddleware en action w) = Inr (next_result en action)
         \<and> effects en action w = [Next action]
         \<and> filter is_socket_call (effects en action w) = []
         \<and> filter is_dispatch (effects en action w) = []"
proof (cases action)
  case (Thunk f)
  then show ?thesis by (simp add: middleware_thunk effects_thunk)
next
  case (Action a)
  with assms have "type a \<noteq> ACTIONS_SUBSCRIBE" "type a \<noteq> ACTIONS_UNSUBSCRIBE"
    "type a \<noteq> ACTIONS_EMIT" by simp_all
  then show ?thesis using Action by (simp add: middleware_other effects_other)
qed

theorem unrecognised_is_forwarded_to_next_witness:
  "fst (socketMiddleware example_env
          (Action \<lparr>type = ''INCREMENT'', event = [], handle = None, data = Some (Num 1)\<rparr>)
          empty_world) = Inr Null
   \<and> effects example_env
       (Action \<lparr>type = ''INCREMENT'', event = [], handle = None, data = Some (Num 1)\<rparr>) empty_world =
       [Next (Action \<lparr>type = ''INCREMENT'', event = [], handle = None, data = Some (Num 1)\<rparr>)]
   \<and> effects example_env (Thunk (UserFn 3 ''fetchUser'')) empty_world =
       [Next (Thunk (UserFn 3 ''fetchUser''))]"
  using unrecognised_is_forwarded_to_next [where en = example_env and w = empty_world
      and action = "Action \<lparr>type = ''INCREMENT'', event = [], handle = None, data = Some (Num 1)\<rparr>"]
    unrecognised_is_forwarded_to_next [where en = example_env and w = empty_world
      and action = "Thunk (UserFn 3 ''fetchUser'')"]
  by (simp add: ACTIONS_SUBSCRIBE_def ACTIONS_UNSUBSCRIBE_def ACTIONS_EMIT_def example_env_def)

text \<open>
  C6. For every event and handler function, processing an UNSUBSCRIBE action makes
  exactly two calls: the \<open>dispatch\<close> of the provenance record, then
  \<open>socket.removeListener(event, handle)\<close> with that very function; it does not call
  \<open>next\<close> and returns \<open>undefined\<close>. On the channel as the spec describes it, this
  takes exactly the pair of the event and the function out of the registrations, so that a
  later delivery of the event does not reach the function.
\<close>

theorem unsubscribe_removes_listener:
  "effects en (Action \<lparr>type = ACTIONS_UNSUBSCRIBE, event = ev, handle = Some (Fun f), data = d\<rparr>) w =
     [Dispatch (Obj [(''type'', Str (''UNSUBSCRIBE '' @ ev)), (''event'', Str ev)]),
      SocketRemoveListener ev f]
   \<and> fst (socketMiddleware en (Action \<lparr>type = ACTIONS_UNSUBSCRIBE, event = ev, handle = Some (Fun f), data = d\<rparr>) w) = Inr Undefined
   \<and> filter is_next (effects en (Action \<lparr>type = ACTIONS_UNSUBSCRIBE, event = ev, handle = Some (Fun f), data = d\<rparr>) w) = []
   \<and> run_channel spec_channel (effects en (Action \<lparr>type = ACTIONS_UNSUBSCRIBE, event = ev, handle = Some (Fun f), data = d\<rparr>) w) L = L - {(ev, f)}
   \<and> f \<notin> listeners_for (run_channel spec_channel (effects en (Action \<lparr>type = ACTIONS_UNSUBSCRIBE, event = ev, handle = Some (Fun f), data = d\<rparr>) w) L) ev"
  by (simp add: effects_unsubscribe_function middleware_unsubscribe_function run_channel_def
      spec_channel_def listeners_for_def image_iff)

text \<open>
  C7. The provenance records. A SUBSCRIBE action dispatches exactly one record,
  \<open>{type: "SUBSCRIBE: <event>", event, handle}\<close>, where \<open>handle\<close> is the string
  \<open>"function: <name>"\<close> when the handler is a function and the handler value as it is
  otherwise. An UNSUBSCRIBE action dispatches exactly one record,
  \<open>{type: "UNSUBSCRIBE <event>", event}\<close>, without a colon, whatever the handler is.
\<close>

theorem provenance_shapes:
  "filter is_dispatch (effects en (Action \<lparr>type = ACTIONS_SUBSCRIBE, event = ev, handle = Some (Fun f), data = d\<rparr>) w) =
     [Dispatch (Obj [(''type'', Str (''SUBSCRIBE: '' @ ev)),
                     (''event'', Str ev),
                     (''handle'', Str (''function: '' @ fn_name f))])]
   \<and> (\<not> is_function (read_prop h) \<longrightarrow>
        filter is_dispatch (effects en (Action \<lparr>type = ACTIONS_SUBSCRIBE, event = ev, handle = h, data = d\<rparr>) w) =
          [Dispatch (Obj [(''type'', Str (''SUBSCRIBE: '' @ ev)),
                          (''event'', Str ev),
                          (''handle'', read_prop h)])])
   \<and> filter is_dispatch (effects en (Action \<lparr>type = ACTIONS_UNSUBSCRIBE, event = ev, handle = h, data = d\<rparr>) w) =
       [Dispatch (Obj [(''type'', Str (''UNSUBSCRIBE '' @ ev)), (''event'', Str ev)])]"
proof -
  have "filter is_dispatch (effects en (Action \<lparr>type = ACTIONS_UNSUBSCRIBE, event = ev, handle = h, data = d\<rparr>) w) =
       [Dispatch (Obj [(''type'', Str (''UNSUBSCRIBE '' @ ev)), (''event'', Str ev)])]"
  proof (cases "is_function (read_prop h)")
    case True
    then obtain g where "h = Some (Fun g)" by (auto simp: is_function_read_prop)
    then show ?thesis by (simp add: effects_unsubscribe_function)
  next
    case False
    then show ?thesis by (simp add: effects_unsubscribe_error)
  qed
  then show ?thesis
    by (simp add: effects_subscribe_function effects_subscribe_default)
qed

theorem provenance_shapes_witness:
  "\<not> is_function (read_prop (Some Undefined))
   \<and> filter is_dispatch
       (effects example_env (Action (subscribe ''chat:message'' Undefined)) empty_world) =
       [Dispatch (Obj [(''type'', Str ''SUBSCRIBE: chat:message''),
                       (''event'', Str ''chat:message''),
                       (''handle'', Undefined)])]
   \<and> filter is_dispatch
       (effects example_env (Action (subscribe ''chat:message'' (Fun (UserFn 7 ''onMessage''))))
          empty_world) =
       [Dispatch (Obj [(''type'', Str ''SUBSCRIBE: chat:message''),
                       (''event'', Str ''chat:message''),
                       (''handle'', Str ''function: onMessage'')])]
   \<and> filter is_dispatch
       (effects example_env (Action (unsubscribe ''chat:message'' (Fun (UserFn 7 ''onMessage''))))
          empty_world) =
       [Dispatch (Obj [(''type'', Str ''UNSUBSCRIBE chat:message''),
                       (''event'', Str ''chat:message'')])]"
  using provenance_shapes [where h = "Some Undefined" and ev = "''chat:message''"
      and en = example_env and w = empty_world and d = None and f = "UserFn 7 ''onMessage''"]
    provenance_shapes [where h = "Some (Fun (UserFn 7 ''onMessage''))" and ev = "''chat:message''"
      and en = example_env and w = empty_world and d = None and f = "UserFn 7 ''onMessage''"]
  by (simp add: subscribe_def unsubscribe_def)

text \<open>
  C8. The three action creators only build a record: \<open>emit(event, data)\<close> is
  \<open>{type: 'SOCKET_IO_EMIT', event, data}\<close> (no \<open>handle\<close> property),
  \<open>subscribe(event, handle)\<close> is \<open>{type: 'SOCKET_IO_SUBSCRIBE', event, handle}\<close>
  and \<open>unsubscribe(event, handle)\<close> is \<open>{type: 'SOCKET_IO_UNSUBSCRIBE', event, handle}\<close>
  (no \<open>data\<close> property), for all arguments. They take no state and return none:
  their bodies are object literals and call nothing.
\<close>

theorem action_creators_shape:
  "type (emit ev v) = ''SOCKET_IO_EMIT'' \<and> event (emit ev v) = ev
     \<and> data (emit ev v) = Some v \<and> handle (emit ev v) = None
   \<and> type (subscribe ev v) = ''SOCKET_IO_SUBSCRIBE'' \<and> event (subscribe ev v) = ev
     \<and> handle (subscribe ev v) = Some v \<and> data (subscribe ev v) = None
   \<and> type (unsubscribe ev v) = ''SOCKET_IO_UNSUBSCRIBE'' \<and> event (unsubscribe ev v) = ev
     \<and> handle (unsubscribe ev v) = Some v \<and> data (unsubscribe ev v) = None"
  by (simp add: emit_def subscribe_def unsubscribe_def
      ACTIONS_EMIT_def ACTIONS_SUBSCRIBE_def ACTIONS_UNSUBSCRIBE_def)

text \<open>
  C9. Processing a SUBSCRIBE action never throws, whatever the handle is: it returns a
  function. When the handle is a value that is neither a function nor \<open>undefined\<close>
  (the number 42, say), the middleware registers and returns the default handler, and the
  provenance record carries the value as it is in its \<open>handle\<close> field.
\<close>

theorem subscribe_never_raises:
  "(\<exists>g. fst (socketMiddleware en (Action \<lparr>type = ACTIONS_SUBSCRIBE, event = ev, handle = h, data = d\<rparr>) w) = Inr (Fun g))
   \<and> (\<not> is_function v \<and> v \<noteq> Undefined \<longrightarrow>
        effects en (Action \<lparr>type = ACTIONS_SUBSCRIBE, event = ev, handle = Some v, data = d\<rparr>) w =
          [Dispatch (Obj [(''type'', Str (''SUBSCRIBE: '' @ ev)),
                          (''event'', Str ev),
                          (''handle'', v)]),
           SocketOn ev (DefaultHandler (next_ref w) ev)]
        \<and> fst (socketMiddleware en (Action \<lparr>type = ACTIONS_SUBSCRIBE, event = ev, handle = Some v, data = d\<rparr>) w) = Inr (Fun (DefaultHandler (next_ref w) ev)))"
proof -
  have "\<exists>g. fst (socketMiddleware en (Action \<lparr>type = ACTIONS_SUBSCRIBE, event = ev, handle = h, data = d\<rparr>) w) = Inr (Fun g)"
  proof (cases "is_function (read_prop h)")
    case True
    then obtain f where "h = Some (Fun f)" by (auto simp: is_function_read_prop)
    then show ?thesis by (simp add: middleware_subscribe_function)
  next
    case False
    then show ?thesis by (simp add: middleware_subscribe_default)
  qed
  then show ?thesis
    by (simp add: effects_subscribe_default middleware_subscribe_default)
qed

theorem subscribe_never_raises_witness:
  "\<not> is_function (Num 42) \<and> Num 42 \<noteq> Undefined
   \<and> effects example_env (Action (subscribe ''chat:message'' (Num 42))) empty_world =
       [Dispatch (Obj [(''type'', Str ''SUBSCRIBE: chat:message''),
                       (''event'', Str ''chat:message''),
                       (''handle'', Num 42)]),
        SocketOn ''chat:message'' (DefaultHandler 0 ''chat:message'')]
   \<and> fst (socketMiddleware example_env (Action (subscribe ''chat:message'' (Num 42))) empty_world) =
       Inr (Fun (DefaultHandler 0 ''chat:message''))"
  using subscribe_never_raises [where v = "Num 42" and ev = "''chat:message''"
      and en = example_env and w = empty_world and d = None and h = None]
  by (simp add: subscribe_def empty_world_def)

text \<open>
  C10. For every action whose type is one of the three kinds, the middleware does not
  call \<open>next\<close>, whether it returns or throws.
\<close>

theorem recognised_never_calls_next:
  assumes "type a = ACTIONS_SUBSCRIBE \<or> type a = ACTIONS_UNSUBSCRIBE \<or> type a = ACTIONS_EMIT"
  shows "filter is_next (effects en (Action a) w) = []"
proof -
  obtain ty ev h d where a: "a = \<lparr>type = ty, event = ev, handle = h, data = d\<rparr>"
    by (cases a) simp
  consider (sub) "ty = ACTIONS_SUBSCRIBE" | (unsub) "ty = ACTIONS_UNSUBSCRIBE"
    | (emit) "ty = ACTIONS_EMIT"
    using assms a by auto
  then show ?thesis
  proof cases
    case sub
    show ?thesis
    proof (cases "is_function (read_prop h)")
      case True
      then obtain f where "h = Some (Fun f)" by (auto simp: is_function_read_prop)
      then show ?thesis using a sub by (simp add: effects_subscribe_function)
    next
      case False
      then show ?thesis using a sub by (simp add: effects_subscribe_default)
    qed
  next
    case unsub
    show ?thesis
    proof (cases "is_function (read_prop h)")
      case True
      then obtain f where "h = Some (Fun f)" by (auto simp: is_function_read_prop)
      then show ?thesis using a unsub by (simp add: effects_unsubscribe_function)
    next
      case False
      then show ?thesis using a unsub by (simp add: effects_unsubscribe_error)
    qed
  next
    case emit
    then show ?thesis using a by (simp add: effects_emit)
  qed
qed

theorem recognised_never_calls_next_witness:
  "filter is_next
     (effects example_env (Action (emit ''chat:message'' (Obj [(''text'', Str ''hi'')])))
        empty_world) = []
   \<and> filter is_next
     (effects example_env (Action (unsubscribe ''chat:message'' (Num 42))) empty_world) = []
   \<and> filter is_next
     (effects example_env (Action (subscribe ''chat:message'' Undefined)) empty_world) = []"
  using recognised_never_calls_next [where en = example_env and w = empty_world
      and a = "emit ''chat:message'' (Obj [(''text'', Str ''hi'')])"]
    recognised_never_calls_next [where en = example_env and w = empty_world
      and a = "unsubscribe ''chat:message'' (Num 42)"]
    recognised_never_calls_next [where en = example_env and w = empty_world
      and a = "subscribe ''chat:message'' Undefined"]
  by (simp add: emit_def subscribe_def unsubscribe_def)

end
